theory Spec2Isabelle
  imports Complex_Main
begin

section \<open>P3Loops: edges on a square with identified sides\<close>

text \<open>
  A shallow embedding of \<^verbatim>\<open>src/p3loops.py\<close>. Every definition follows one source
  function and keeps its name (a leading underscore is dropped, since an Isabelle name
  cannot start with one) and its order of tests.

  Positions are real numbers. The source annotates them as \<^verbatim>\<open>float\<close> and its tests and its
  demonstration pass Python integers; all the arithmetic it performs on them (adding to and
  subtracting from constants, the remainder by 400, comparisons, equality) is exact on
  integers and on every float where no rounding occurs, and it is that exact arithmetic
  which is modelled here.
\<close>

subsection \<open>Boundary model\<close>

datatype Side = NORTH | EAST | SOUTH | WEST

record Point =
  side :: Side
  position :: real

text \<open>
  The only exception the module raises is Python's \<^verbatim>\<open>ValueError\<close> (the condition the
  specification calls InvalidArgument).
\<close>

datatype error = ValueError

text \<open>
  \<^verbatim>\<open>Point(side, position)\<close>: the generated constructor stores both fields and then runs
  \<^verbatim>\<open>__post_init__\<close>, which raises unless \<^verbatim>\<open>0 <= position <= 100\<close>.
\<close>

definition mk_Point :: "Side \<Rightarrow> real \<Rightarrow> error + Point" where
  "mk_Point s x =
     (if \<not> (0 \<le> x \<and> x \<le> 100) then Inl ValueError
      else Inr \<lparr>side = s, position = x\<rparr>)"

text \<open>
  The class is frozen, so every \<^verbatim>\<open>Point\<close> object that exists has passed that test.
\<close>

definition wf_Point :: "Point \<Rightarrow> bool" where
  "wf_Point p = (0 \<le> position p \<and> position p \<le> 100)"

text \<open>
  \<^verbatim>\<open>Point.canonicalize\<close>. The source builds the canonical point with the constructor, and
  the position it passes is the one of an existing point, so the constructor's test
  cannot fail there (lemma \<open>canonicalize_constructs\<close> below).
\<close>

definition canonicalize :: "Point \<Rightarrow> Point" where
  "canonicalize p =
     (if side p = NORTH then \<lparr>side = EAST, position = position p\<rparr>
      else if side p = SOUTH then \<lparr>side = WEST, position = position p\<rparr>
      else p)"

definition is_equivalent :: "Point \<Rightarrow> Point \<Rightarrow> bool" where
  "is_equivalent p other = (canonicalize p = canonicalize other)"

subsection \<open>Edges and paths\<close>

text \<open>
  The field \<^verbatim>\<open>end\<close> of the source is named \<open>end_pt\<close>, \<open>end\<close> being a keyword here.
\<close>

record Edge =
  start :: Point
  end_pt :: Point

definition connects_to :: "Edge \<Rightarrow> Edge \<Rightarrow> bool" where
  "connects_to e other = is_equivalent (end_pt e) (start other)"

text \<open>
  \<^verbatim>\<open>is_valid_path\<close>: the loop \<^verbatim>\<open>for i in range(len(edges) - 1)\<close> runs over the list of
  indices and returns \<^verbatim>\<open>False\<close> at the first pair that does not connect.
\<close>

fun is_valid_path_loop :: "Edge list \<Rightarrow> nat list \<Rightarrow> bool" where
  "is_valid_path_loop edges [] = True"
| "is_valid_path_loop edges (i # rest) =
     (if \<not> connects_to (edges ! i) (edges ! (i + 1)) then False
      else is_valid_path_loop edges rest)"

definition is_valid_path :: "Edge list \<Rightarrow> bool" where
  "is_valid_path edges =
     (if length edges = 0 then True
      else is_valid_path_loop edges [0..<length edges - 1])"

subsection \<open>Boundary parameterization\<close>

definition get_boundary_coordinate :: "Point \<Rightarrow> real" where
  "get_boundary_coordinate point =
     (if side point = NORTH then position point
      else if side point = EAST then 100 + (100 - position point)
      else if side point = SOUTH then 200 + position point
      else 300 + (100 - position point))"

subsection \<open>Crossing predicate\<close>

text \<open>
  Python's \<^verbatim>\<open>x % m\<close> for a positive modulus: the remainder of floored division, in
  \<open>[0, m)\<close>. The source uses it with the modulus 400 only.
\<close>

definition py_mod :: "real \<Rightarrow> real \<Rightarrow> real" where
  "py_mod x m = x - m * of_int \<lfloor>x / m\<rfloor>"

definition point_in_arc :: "real \<Rightarrow> real \<Rightarrow> real \<Rightarrow> bool" where
  "point_in_arc point arc_start arc_end =
     (let point = py_mod point 400;
          arc_start = py_mod arc_start 400;
          arc_end = py_mod arc_end 400
      in if arc_start = arc_end then False
         else if arc_start < arc_end then arc_start < point \<and> point < arc_end
         else point > arc_start \<or> point < arc_end)"

definition segments_intersect :: "real \<Rightarrow> real \<Rightarrow> real \<Rightarrow> real \<Rightarrow> bool" where
  "segments_intersect a1 a2 b1 b2 =
     (let a1 = py_mod a1 400;
          a2 = py_mod a2 400;
          b1 = py_mod b1 400;
          b2 = py_mod b2 400;
          b1_in_a = point_in_arc b1 a1 a2;
          b2_in_a = point_in_arc b2 a1 a2;
          a1_in_b = point_in_arc a1 b1 b2;
          a2_in_b = point_in_arc a2 b1 b2
      in (b1_in_a \<noteq> b2_in_a) \<and> (a1_in_b \<noteq> a2_in_b))"

definition edges_cross :: "Edge \<Rightarrow> Edge \<Rightarrow> bool" where
  "edges_cross edge1 edge2 =
     (if is_equivalent (start edge1) (start edge2) \<or>
         is_equivalent (start edge1) (end_pt edge2) \<or>
         is_equivalent (end_pt edge1) (start edge2) \<or>
         is_equivalent (end_pt edge1) (end_pt edge2)
      then False
      else let a1 = get_boundary_coordinate (start edge1);
               a2 = get_boundary_coordinate (end_pt edge1);
               b1 = get_boundary_coordinate (start edge2);
               b2 = get_boundary_coordinate (end_pt edge2)
           in segments_intersect a1 a2 b1 b2)"

text \<open>
  \<^verbatim>\<open>is_noncrossing\<close>: two nested loops, the inner one over \<^verbatim>\<open>range(i + 1, len(edges))\<close>,
  returning \<^verbatim>\<open>False\<close> at the first crossing pair.
\<close>

fun is_noncrossing_inner :: "Edge list \<Rightarrow> nat \<Rightarrow> nat list \<Rightarrow> bool" where
  "is_noncrossing_inner edges i [] = True"
| "is_noncrossing_inner edges i (j # rest) =
     (if edges_cross (edges ! i) (edges ! j) then False
      else is_noncrossing_inner edges i rest)"

fun is_noncrossing_outer :: "Edge list \<Rightarrow> nat list \<Rightarrow> bool" where
  "is_noncrossing_outer edges [] = True"
| "is_noncrossing_outer edges (i # rest) =
     (if is_noncrossing_inner edges i [i + 1..<length edges]
      then is_noncrossing_outer edges rest
      else False)"

definition is_noncrossing :: "Edge list \<Rightarrow> bool" where
  "is_noncrossing edges = is_noncrossing_outer edges [0..<length edges]"

definition is_noncrossing_path :: "Edge list \<Rightarrow> bool" where
  "is_noncrossing_path edges = (is_valid_path edges \<and> is_noncrossing edges)"

subsection \<open>Parsing a side\<close>

text \<open>
  A Python string is a sequence of code points. Strings are modelled as \<open>string\<close>, whose
  characters are the 256 code points below U+0100; \<^verbatim>\<open>str.lower\<close> and the white space that
  \<^verbatim>\<open>str.strip\<close> removes are written out for that range: the letters A to Z and the
  capital letters of Latin-1 (U+00C0 to U+00DE, the multiplication sign U+00D7 apart) are
  32 below their lower-case forms, and the white space is U+0009 to U+000D, U+001C to
  U+0020, U+0085 and U+00A0.
\<close>

definition py_isspace :: "char \<Rightarrow> bool" where
  "py_isspace c =
     (let n = (of_char c :: nat)
      in (9 \<le> n \<and> n \<le> 13) \<or> (28 \<le> n \<and> n \<le> 32) \<or> n = 133 \<or> n = 160)"

definition py_lower_char :: "char \<Rightarrow> char" where
  "py_lower_char c =
     (let n = (of_char c :: nat)
      in if (65 \<le> n \<and> n \<le> 90) \<or> (192 \<le> n \<and> n \<le> 222 \<and> n \<noteq> 215)
         then char_of (n + 32) else c)"

definition py_lower :: "string \<Rightarrow> string" where
  "py_lower s = map py_lower_char s"

definition py_strip :: "string \<Rightarrow> string" where
  "py_strip s = rev (dropWhile py_isspace (rev (dropWhile py_isspace s)))"

text \<open>
  \<^verbatim>\<open>parse_side\<close>: the argument is lowered, then stripped, then looked up in the four
  pairs of spellings in the order of the source.
\<close>

definition parse_side :: "string \<Rightarrow> error + Side" where
  "parse_side s =
     (let s = py_strip (py_lower s)
      in if s = ''n'' \<or> s = ''north'' then Inr NORTH
         else if s = ''e'' \<or> s = ''east'' then Inr EAST
         else if s = ''s'' \<or> s = ''south'' then Inr SOUTH
         else if s = ''w'' \<or> s = ''west'' then Inr WEST
         else Inl ValueError)"

subsection \<open>The rules as the specification words them\<close>

text \<open>
  These definitions follow the specification, not the source; the theorems below compare
  them with the source's functions.

  Section 4.4, step 3: \<open>point_in_arc(x, s, e)\<close> on coordinates already reduced modulo 400.
\<close>

definition spec_point_in_arc :: "real \<Rightarrow> real \<Rightarrow> real \<Rightarrow> bool" where
  "spec_point_in_arc x s e =
     (if s = e then False
      else if s < e then s < x \<and> x < e
      else x > s \<or> x < e)"

text \<open>
  Section 4.4, step 4: the arcs cross iff exactly one end of each lies in the other.
\<close>

definition spec_arcs_cross :: "real \<Rightarrow> real \<Rightarrow> real \<Rightarrow> real \<Rightarrow> bool" where
  "spec_arcs_cross a1 a2 b1 b2 =
     ((spec_point_in_arc b1 a1 a2 \<noteq> spec_point_in_arc b2 a1 a2) \<and>
      (spec_point_in_arc a1 b1 b2 \<noteq> spec_point_in_arc a2 b1 b2))"

text \<open>
  Section 6: a parser that ignores case and accepts the eight spellings only.
\<close>

definition spec_parse_side :: "string \<Rightarrow> error + Side" where
  "spec_parse_side s =
     (let s = py_lower s
      in if s = ''n'' \<or> s = ''north'' then Inr NORTH
         else if s = ''e'' \<or> s = ''east'' then Inr EAST
         else if s = ''s'' \<or> s = ''south'' then Inr SOUTH
         else if s = ''w'' \<or> s = ''west'' then Inr WEST
         else Inl ValueError)"

subsection \<open>Example paths\<close>

abbreviation Pt :: "Side \<Rightarrow> real \<Rightarrow> Point" where
  "Pt s x \<equiv> \<lparr>side = s, position = x\<rparr>"

abbreviation Ed :: "Point \<Rightarrow> Point \<Rightarrow> Edge" where
  "Ed a b \<equiv> \<lparr>start = a, end_pt = b\<rparr>"

text \<open>The four examples of the module's demonstration.\<close>

definition edges1 :: "Edge list" where
  "edges1 = [Ed (Pt SOUTH 10) (Pt EAST 30), Ed (Pt NORTH 30) (Pt WEST 10)]"

definition edges2 :: "Edge list" where
  "edges2 = [Ed (Pt SOUTH 10) (Pt EAST 30), Ed (Pt NORTH 50) (Pt WEST 10)]"

definition edges3 :: "Edge list" where
  "edges3 = [Ed (Pt NORTH 10) (Pt SOUTH 10), Ed (Pt EAST 50) (Pt WEST 50)]"

definition edges4 :: "Edge list" where
  "edges4 = [Ed (Pt NORTH 20) (Pt NORTH 40), Ed (Pt SOUTH 60) (Pt SOUTH 80)]"

text \<open>A chain of three edges whose first and last edges are the crossing pair of \<open>edges3\<close>.\<close>

definition crossing_chain :: "Edge list" where
  "crossing_chain =
     [Ed (Pt NORTH 10) (Pt SOUTH 10), Ed (Pt SOUTH 10) (Pt NORTH 50),
      Ed (Pt EAST 50) (Pt WEST 50)]"

section \<open>Properties\<close>

subsection \<open>Construction\<close>

lemma canonicalize_constructs:
  "wf_Point p \<Longrightarrow>
     mk_Point (side (canonicalize p)) (position (canonicalize p)) = Inr (canonicalize p)"
  by (simp add: wf_Point_def mk_Point_def canonicalize_def)

text \<open>
  Claim C8. Constructing a point fails with \<^verbatim>\<open>ValueError\<close> exactly when the position
  lies outside the closed interval from 0 to 100, and otherwise returns the point with
  the given side and position; the positions 0 and 100 are accepted, the positions -1
  and 101 are rejected.
\<close>

theorem mk_Point_fails_iff_outside:
  "(mk_Point s x = Inl ValueError) = (x < 0 \<or> 100 < x) \<and>
   (mk_Point s x = Inr \<lparr>side = s, position = x\<rparr>) = (0 \<le> x \<and> x \<le> 100) \<and>
   mk_Point s 0 = Inr \<lparr>side = s, position = 0\<rparr> \<and>
   mk_Point s 100 = Inr \<lparr>side = s, position = 100\<rparr> \<and>
   mk_Point s (- 1) = Inl ValueError \<and>
   mk_Point s 101 = Inl ValueError"
  by (auto simp add: mk_Point_def)

subsection \<open>Boundary parameterization\<close>

text \<open>
  Claim C3. The boundary coordinate is the piecewise map: a North point at position \<open>p\<close>
  maps to \<open>p\<close>, an East point to \<open>100 + (100 - p)\<close>, a South point to \<open>200 + p\<close> and a West
  point to \<open>300 + (100 - p)\<close>, for every position and so for every position from 0 to 100.
  No canonicalization is applied: the North and the East point at the same position are
  equivalent, and their coordinates differ unless the position is 100.
\<close>

theorem get_boundary_coordinate_piecewise:
  "get_boundary_coordinate \<lparr>side = NORTH, position = p\<rparr> = p \<and>
   get_boundary_coordinate \<lparr>side = EAST, position = p\<rparr> = 100 + (100 - p) \<and>
   get_boundary_coordinate \<lparr>side = SOUTH, position = p\<rparr> = 200 + p \<and>
   get_boundary_coordinate \<lparr>side = WEST, position = p\<rparr> = 300 + (100 - p) \<and>
   is_equivalent \<lparr>side = NORTH, position = p\<rparr> \<lparr>side = EAST, position = p\<rparr> \<and>
   (get_boundary_coordinate \<lparr>side = NORTH, position = p\<rparr> =
      get_boundary_coordinate \<lparr>side = EAST, position = p\<rparr>) = (p = 100)"
  by (auto simp add: get_boundary_coordinate_def is_equivalent_def canonicalize_def)

text \<open>
  The West point at position 0, the north-west corner, is well formed and its coordinate
  is 400, which is outside the half-open interval from 0 to 400 of claim C4.
\<close>

theorem get_boundary_coordinate_west_zero:
  "wf_Point \<lparr>side = WEST, position = 0\<rparr> \<and>
   \<not> (0 \<le> get_boundary_coordinate \<lparr>side = WEST, position = 0\<rparr> \<and>
      get_boundary_coordinate \<lparr>side = WEST, position = 0\<rparr> < 400)"
  by (simp add: wf_Point_def get_boundary_coordinate_def)

text \<open>
  Claim C4, amended. For every well-formed point the boundary coordinate lies in the
  closed interval from 0 to 400. Which points reach the upper end is left open: in the
  source's float arithmetic \<^verbatim>\<open>300 + (100 - p)\<close> is also 400 at positive positions too
  small to survive the subtraction from 100.
\<close>

theorem get_boundary_coordinate_range:
  assumes "wf_Point p"
  shows "0 \<le> get_boundary_coordinate p \<and> get_boundary_coordinate p \<le> 400"
  using assms by (cases "side p") (auto simp add: wf_Point_def get_boundary_coordinate_def)

theorem get_boundary_coordinate_range_witness:
  "wf_Point (Pt WEST 0) \<and> 0 \<le> get_boundary_coordinate (Pt WEST 0) \<and>
   get_boundary_coordinate (Pt WEST 0) \<le> 400 \<and>
   wf_Point (Pt EAST 30) \<and> 0 \<le> get_boundary_coordinate (Pt EAST 30) \<and>
   get_boundary_coordinate (Pt EAST 30) \<le> 400"
proof -
  have w: "wf_Point (Pt WEST 0)" and e: "wf_Point (Pt EAST 30)"
    by (simp_all add: wf_Point_def)
  show ?thesis
    using w e get_boundary_coordinate_range [OF w] get_boundary_coordinate_range [OF e]
    by simp
qed

subsection \<open>The remainder by 400\<close>

lemma py_mod_400_range: "0 \<le> py_mod x 400 \<and> py_mod x 400 < 400"
proof -
  have "of_int \<lfloor>x / 400\<rfloor> \<le> x / 400"
    by linarith
  moreover have "x / 400 < of_int \<lfloor>x / 400\<rfloor> + 1"
    by linarith
  ultimately have "400 * of_int \<lfloor>x / 400\<rfloor> \<le> x"
    and "x < 400 * of_int \<lfloor>x / 400\<rfloor> + 400"
    by (simp_all add: field_simps)
  then show ?thesis
    unfolding py_mod_def by linarith
qed

lemma py_mod_400_idem: "py_mod (py_mod x 400) 400 = py_mod x 400"
proof -
  have "\<lfloor>py_mod x 400 / 400\<rfloor> = 0"
    using py_mod_400_range [of x] by (simp add: floor_eq_iff)
  then show ?thesis
    by (simp add: py_mod_def [of "py_mod x 400"])
qed

subsection \<open>Crossing\<close>

text \<open>
  \<^verbatim>\<open>_segments_intersect\<close> reduces its arguments and its inner function reduces them
  again; the second reduction changes nothing.
\<close>

lemma point_in_arc_reduced:
  "point_in_arc (py_mod x 400) (py_mod s 400) (py_mod e 400) =
     spec_point_in_arc (py_mod x 400) (py_mod s 400) (py_mod e 400)"
  by (simp add: point_in_arc_def Let_def spec_point_in_arc_def py_mod_400_idem)

lemma segments_intersect_spec:
  "segments_intersect a1 a2 b1 b2 =
     spec_arcs_cross (py_mod a1 400) (py_mod a2 400) (py_mod b1 400) (py_mod b2 400)"
  by (simp add: segments_intersect_def Let_def spec_arcs_cross_def point_in_arc_reduced)

lemma segments_intersect_commute:
  "segments_intersect a1 a2 b1 b2 = segments_intersect b1 b2 a1 a2"
  by (auto simp add: segments_intersect_def Let_def)

lemma segments_intersect_degenerate:
  assumes "py_mod a1 400 = py_mod a2 400"
  shows "\<not> segments_intersect a1 a2 b1 b2"
  using assms
  by (simp add: segments_intersect_def point_in_arc_def Let_def py_mod_400_idem)

lemma is_equivalent_commute: "is_equivalent p q = is_equivalent q p"
  by (auto simp add: is_equivalent_def)

lemma edges_cross_commute: "edges_cross e1 e2 = edges_cross e2 e1"
proof -
  have "segments_intersect
          (get_boundary_coordinate (start e1)) (get_boundary_coordinate (end_pt e1))
          (get_boundary_coordinate (start e2)) (get_boundary_coordinate (end_pt e2)) =
        segments_intersect
          (get_boundary_coordinate (start e2)) (get_boundary_coordinate (end_pt e2))
          (get_boundary_coordinate (start e1)) (get_boundary_coordinate (end_pt e1))"
    by (rule segments_intersect_commute)
  then show ?thesis
    unfolding edges_cross_def Let_def
    using is_equivalent_commute by auto
qed

lemmas eval_cross =
  edges_cross_def is_equivalent_def canonicalize_def get_boundary_coordinate_def
  segments_intersect_def point_in_arc_def py_mod_def

text \<open>
  Claim C1. For two edges whose four endpoints are pairwise non-equivalent,
  \<^verbatim>\<open>edges_cross\<close> is the arc rule of the specification on the four boundary coordinates
  reduced modulo 400: exactly one end of the second edge lies in the arc of the first, and
  exactly one end of the first lies in the arc of the second.
\<close>

theorem edges_cross_arc_rule:
  assumes "\<not> is_equivalent (start e1) (end_pt e1)"
    and "\<not> is_equivalent (start e1) (start e2)"
    and "\<not> is_equivalent (start e1) (end_pt e2)"
    and "\<not> is_equivalent (end_pt e1) (start e2)"
    and "\<not> is_equivalent (end_pt e1) (end_pt e2)"
    and "\<not> is_equivalent (start e2) (end_pt e2)"
  shows "edges_cross e1 e2 =
           spec_arcs_cross
             (py_mod (get_boundary_coordinate (start e1)) 400)
             (py_mod (get_boundary_coordinate (end_pt e1)) 400)
             (py_mod (get_boundary_coordinate (start e2)) 400)
             (py_mod (get_boundary_coordinate (end_pt e2)) 400)"
  using assms
  by (simp add: edges_cross_def Let_def segments_intersect_spec)

theorem edges_cross_arc_rule_witness:
  "\<not> is_equivalent (Pt NORTH 10) (Pt SOUTH 10) \<and>
   \<not> is_equivalent (Pt NORTH 10) (Pt EAST 50) \<and>
   \<not> is_equivalent (Pt NORTH 10) (Pt WEST 50) \<and>
   \<not> is_equivalent (Pt SOUTH 10) (Pt EAST 50) \<and>
   \<not> is_equivalent (Pt SOUTH 10) (Pt WEST 50) \<and>
   \<not> is_equivalent (Pt EAST 50) (Pt WEST 50) \<and>
   spec_arcs_cross 10 210 150 350 \<and>
   edges_cross (Ed (Pt NORTH 10) (Pt SOUTH 10)) (Ed (Pt EAST 50) (Pt WEST 50))"
proof -
  have n: "\<not> is_equivalent (Pt NORTH 10) (Pt SOUTH 10)"
    "\<not> is_equivalent (Pt NORTH 10) (Pt EAST 50)"
    "\<not> is_equivalent (Pt NORTH 10) (Pt WEST 50)"
    "\<not> is_equivalent (Pt SOUTH 10) (Pt EAST 50)"
    "\<not> is_equivalent (Pt SOUTH 10) (Pt WEST 50)"
    "\<not> is_equivalent (Pt EAST 50) (Pt WEST 50)"
    by (simp_all add: is_equivalent_def canonicalize_def)
  have s: "spec_arcs_cross 10 210 150 350"
    by (simp add: spec_arcs_cross_def spec_point_in_arc_def)
  have "edges_cross (Ed (Pt NORTH 10) (Pt SOUTH 10)) (Ed (Pt EAST 50) (Pt WEST 50))"
    using n s
      edges_cross_arc_rule [of "Ed (Pt NORTH 10) (Pt SOUTH 10)" "Ed (Pt EAST 50) (Pt WEST 50)"]
    by (simp add: get_boundary_coordinate_def py_mod_def)
  with n s show ?thesis
    by simp
qed

text \<open>
  Claim C2. When some endpoint of the first edge is equivalent to some endpoint of the
  second, \<^verbatim>\<open>edges_cross\<close> returns false, whatever the arcs of the two edges are.
\<close>

theorem edges_cross_shared_endpoint:
  assumes "is_equivalent (start e1) (start e2) \<or> is_equivalent (start e1) (end_pt e2) \<or>
           is_equivalent (end_pt e1) (start e2) \<or> is_equivalent (end_pt e1) (end_pt e2)"
  shows "edges_cross e1 e2 = False"
  using assms by (simp add: edges_cross_def)

text \<open>
  The witness is a pair whose arcs do cross: North at 10 to South at 10 against North at
  50 to West at 10, where West at 10 is the South point at 10 under the identification.
\<close>

theorem edges_cross_shared_endpoint_witness:
  "is_equivalent (Pt SOUTH 10) (Pt WEST 10) \<and>
   segments_intersect 10 210 50 390 \<and>
   edges_cross (Ed (Pt NORTH 10) (Pt SOUTH 10)) (Ed (Pt NORTH 50) (Pt WEST 10)) = False"
proof -
  have h: "is_equivalent (Pt SOUTH 10) (Pt WEST 10)"
    by (simp add: is_equivalent_def canonicalize_def)
  have s: "segments_intersect 10 210 50 390"
    by (simp add: segments_intersect_def point_in_arc_def py_mod_def)
  show ?thesis
    using h s
      edges_cross_shared_endpoint
        [of "Ed (Pt NORTH 10) (Pt SOUTH 10)" "Ed (Pt NORTH 50) (Pt WEST 10)"]
    by simp
qed

text \<open>
  Claim C5. When the start and the end of an edge have the same boundary coordinate
  modulo 400, \<^verbatim>\<open>edges_cross\<close> is false for that edge and any other edge, in both
  argument orders.
\<close>

theorem edges_cross_degenerate:
  assumes "py_mod (get_boundary_coordinate (start e1)) 400 =
           py_mod (get_boundary_coordinate (end_pt e1)) 400"
  shows "edges_cross e1 e2 = False \<and> edges_cross e2 e1 = False"
proof -
  have "\<not> edges_cross e1 e2"
    using assms by (simp add: edges_cross_def Let_def segments_intersect_degenerate)
  then show ?thesis
    using edges_cross_commute [of e2 e1] by simp
qed

text \<open>
  The witness is the chord from North at 0 to West at 0: two points that are not
  equivalent, with the coordinates 0 and 400.
\<close>

theorem edges_cross_degenerate_witness:
  "py_mod (get_boundary_coordinate (Pt NORTH 0)) 400 =
     py_mod (get_boundary_coordinate (Pt WEST 0)) 400 \<and>
   \<not> is_equivalent (Pt NORTH 0) (Pt WEST 0) \<and>
   edges_cross (Ed (Pt NORTH 0) (Pt WEST 0)) (Ed (Pt EAST 50) (Pt WEST 50)) = False \<and>
   edges_cross (Ed (Pt EAST 50) (Pt WEST 50)) (Ed (Pt NORTH 0) (Pt WEST 0)) = False"
proof -
  have h: "py_mod (get_boundary_coordinate (Pt NORTH 0)) 400 =
           py_mod (get_boundary_coordinate (Pt WEST 0)) 400"
    by (simp add: get_boundary_coordinate_def py_mod_def)
  have n: "\<not> is_equivalent (Pt NORTH 0) (Pt WEST 0)"
    by (simp add: is_equivalent_def canonicalize_def)
  show ?thesis
    using h n
      edges_cross_degenerate
        [of "Ed (Pt NORTH 0) (Pt WEST 0)" "Ed (Pt EAST 50) (Pt WEST 50)"]
    by simp
qed

text \<open>
  Claim C10. \<^verbatim>\<open>edges_cross\<close> is symmetric in its two arguments, for all edges and so
  for all edges built from well-formed points.
\<close>

theorem edges_cross_symmetric: "edges_cross e1 e2 = edges_cross e2 e1"
  by (rule edges_cross_commute)

subsection \<open>Paths\<close>

lemma is_valid_path_loop_iff:
  "is_valid_path_loop edges idx =
     (\<forall>i \<in> set idx. connects_to (edges ! i) (edges ! (i + 1)))"
  by (induction idx) simp_all

lemma is_valid_path_iff:
  "is_valid_path edges =
     (\<forall>i. i + 1 < length edges \<longrightarrow> connects_to (edges ! i) (edges ! (i + 1)))"
  by (auto simp add: is_valid_path_def is_valid_path_loop_iff)

lemmas eval_path =
  is_valid_path_def upt_rec connects_to_def is_equivalent_def canonicalize_def

text \<open>
  Claim C6. \<^verbatim>\<open>is_valid_path\<close> is true for the empty sequence and for every sequence
  of one edge; for a sequence of at least two edges it is true iff every edge connects to
  the next one, where an edge connects to another iff its end is equivalent to the
  other's start. Nothing but adjacent pairs is tested.
\<close>

theorem is_valid_path_adjacent_pairs:
  "is_valid_path [] \<and> is_valid_path [e] \<and>
   (2 \<le> length edges \<longrightarrow>
      is_valid_path edges =
        (\<forall>i. i + 1 < length edges \<longrightarrow> connects_to (edges ! i) (edges ! (i + 1)))) \<and>
   connects_to e1 e2 = is_equivalent (end_pt e1) (start e2)"
  using is_valid_path_iff [of edges]
  by (simp add: is_valid_path_def connects_to_def)

text \<open>
  The witness is a valid chain of three edges that is not closed (its last edge does not
  connect to its first) and that passes twice through the vertex of North at 50.
\<close>

theorem is_valid_path_adjacent_pairs_witness:
  "2 \<le> length crossing_chain \<and> is_valid_path crossing_chain \<and>
   connects_to (crossing_chain ! 0) (crossing_chain ! 1) \<and>
   connects_to (crossing_chain ! 1) (crossing_chain ! 2) \<and>
   \<not> connects_to (crossing_chain ! 2) (crossing_chain ! 0)"
proof -
  have len: "length crossing_chain = 3"
    by (simp add: crossing_chain_def)
  have v: "is_valid_path crossing_chain"
    by (simp add: crossing_chain_def eval_path)
  from len v have a: "\<forall>i. i + 1 < length crossing_chain \<longrightarrow>
      connects_to (crossing_chain ! i) (crossing_chain ! (i + 1))"
    using is_valid_path_adjacent_pairs [where edges = crossing_chain] by simp
  have c0: "connects_to (crossing_chain ! 0) (crossing_chain ! 1)"
    using a [rule_format, of 0] len by simp
  have c1: "connects_to (crossing_chain ! 1) (crossing_chain ! 2)"
    using a [rule_format, of 1] len by (simp add: numeral_2_eq_2)
  have n: "\<not> connects_to (crossing_chain ! 2) (crossing_chain ! 0)"
    by (simp add: crossing_chain_def connects_to_def is_equivalent_def canonicalize_def)
  from len v c0 c1 n show ?thesis
    by simp
qed

lemma is_noncrossing_inner_iff:
  "is_noncrossing_inner edges i js =
     (\<forall>j \<in> set js. \<not> edges_cross (edges ! i) (edges ! j))"
  by (induction js) simp_all

lemma is_noncrossing_outer_iff:
  "is_noncrossing_outer edges idx =
     (\<forall>i \<in> set idx. \<forall>j. i < j \<and> j < length edges \<longrightarrow>
        \<not> edges_cross (edges ! i) (edges ! j))"
  by (induction idx) (auto simp add: is_noncrossing_inner_iff)

lemma is_noncrossing_ordered:
  "is_noncrossing edges =
     (\<forall>i j. i < j \<and> j < length edges \<longrightarrow> \<not> edges_cross (edges ! i) (edges ! j))"
  by (auto simp add: is_noncrossing_def is_noncrossing_outer_iff)

lemma is_noncrossing_unordered:
  "is_noncrossing edges =
     (\<forall>i j. i < length edges \<and> j < length edges \<and> i \<noteq> j \<longrightarrow>
        \<not> edges_cross (edges ! i) (edges ! j))"
  (is "_ = ?R")
proof
  assume L: "is_noncrossing edges"
  show ?R
  proof (intro allI impI)
    fix i j
    assume h: "i < length edges \<and> j < length edges \<and> i \<noteq> j"
    then consider "i < j" | "j < i"
      by linarith
    then show "\<not> edges_cross (edges ! i) (edges ! j)"
    proof cases
      case 1
      with L h show ?thesis
        by (simp add: is_noncrossing_ordered)
    next
      case 2
      with L h have "\<not> edges_cross (edges ! j) (edges ! i)"
        by (simp add: is_noncrossing_ordered)
      then show ?thesis
        using edges_cross_commute [of "edges ! i" "edges ! j"] by simp
    qed
  qed
next
  assume R: ?R
  show "is_noncrossing edges"
    unfolding is_noncrossing_ordered
  proof (intro allI impI)
    fix i j
    assume "i < j \<and> j < length edges"
    then have "i < length edges \<and> j < length edges \<and> i \<noteq> j"
      by simp
    with R show "\<not> edges_cross (edges ! i) (edges ! j)"
      by blast
  qed
qed

lemmas eval_noncrossing = is_noncrossing_def upt_rec eval_cross

lemma crossing_chain_valid_not_noncrossing:
  "is_valid_path crossing_chain \<and> \<not> is_noncrossing crossing_chain"
  by (simp add: crossing_chain_def is_valid_path_def connects_to_def eval_noncrossing)

lemma edges2_noncrossing_not_valid:
  "\<not> is_valid_path edges2 \<and> is_noncrossing edges2"
  by (simp add: edges2_def is_valid_path_def connects_to_def eval_noncrossing)

lemma edges1_valid_noncrossing:
  "is_valid_path edges1 \<and> is_noncrossing edges1"
  by (simp add: edges1_def is_valid_path_def connects_to_def eval_noncrossing)

lemma edges3_neither:
  "\<not> is_valid_path edges3 \<and> \<not> is_noncrossing edges3"
  by (simp add: edges3_def is_valid_path_def connects_to_def eval_noncrossing)

text \<open>
  Claim C7. \<^verbatim>\<open>is_noncrossing\<close> is true iff \<^verbatim>\<open>edges_cross\<close> is false for every pair
  of distinct indices of the sequence, in either order; \<^verbatim>\<open>is_noncrossing_path\<close> is
  true iff both \<^verbatim>\<open>is_valid_path\<close> and \<^verbatim>\<open>is_noncrossing\<close> are. The two are
  independent: each of the four combinations of their values occurs.
\<close>

theorem is_noncrossing_all_pairs:
  "is_noncrossing edges =
     (\<forall>i j. i < length edges \<and> j < length edges \<and> i \<noteq> j \<longrightarrow>
        \<not> edges_cross (edges ! i) (edges ! j)) \<and>
   is_noncrossing_path edges = (is_valid_path edges \<and> is_noncrossing edges) \<and>
   (\<exists>es. is_valid_path es \<and> is_noncrossing es) \<and>
   (\<exists>es. is_valid_path es \<and> \<not> is_noncrossing es) \<and>
   (\<exists>es. \<not> is_valid_path es \<and> is_noncrossing es) \<and>
   (\<exists>es. \<not> is_valid_path es \<and> \<not> is_noncrossing es)"
  using is_noncrossing_unordered [of edges]
    edges1_valid_noncrossing crossing_chain_valid_not_noncrossing
    edges2_noncrossing_not_valid edges3_neither
  unfolding is_noncrossing_path_def
  by blast

theorem is_noncrossing_all_pairs_witness:
  "(0::nat) < length edges3 \<and> (1::nat) < length edges3 \<and>
   edges_cross (edges3 ! 0) (edges3 ! 1) \<and>
   \<not> is_noncrossing edges3 \<and> \<not> is_noncrossing_path edges3 \<and>
   is_noncrossing edges4 \<and> \<not> edges_cross (edges4 ! 0) (edges4 ! 1) \<and>
   \<not> edges_cross (edges4 ! 1) (edges4 ! 0)"
proof -
  have len: "(0::nat) < length edges3 \<and> (1::nat) < length edges3 \<and> (0::nat) \<noteq> 1"
    by (simp add: edges3_def)
  have c: "edges_cross (edges3 ! 0) (edges3 ! 1)"
    by (simp add: edges3_def eval_cross)
  have n3: "\<not> is_noncrossing edges3"
    using len c is_noncrossing_all_pairs [of edges3] by blast
  then have p3: "\<not> is_noncrossing_path edges3"
    using is_noncrossing_all_pairs [of edges3] by blast
  have len4: "(0::nat) < length edges4 \<and> (1::nat) < length edges4 \<and> (0::nat) \<noteq> 1"
    by (simp add: edges4_def)
  have n4: "is_noncrossing edges4"
    by (simp add: edges4_def eval_noncrossing)
  then have "\<forall>i j. i < length edges4 \<and> j < length edges4 \<and> i \<noteq> j \<longrightarrow>
      \<not> edges_cross (edges4 ! i) (edges4 ! j)"
    using is_noncrossing_all_pairs [of edges4] by blast
  with len4 have "\<not> edges_cross (edges4 ! 0) (edges4 ! 1)"
    and "\<not> edges_cross (edges4 ! 1) (edges4 ! 0)"
    by (metis, metis)
  with len c n3 p3 n4 show ?thesis
    by simp
qed

subsection \<open>Parsing a side\<close>

lemma py_isspace_lower_char: "py_isspace (py_lower_char c) = py_isspace c"
  by (auto simp add: py_isspace_def py_lower_char_def Let_def)

lemma py_isspace_comp_lower: "py_isspace \<circ> py_lower_char = py_isspace"
  by (rule ext) (simp add: py_isspace_lower_char)

lemma py_strip_lower: "py_strip (py_lower s) = py_lower (py_strip s)"
  by (simp add: py_strip_def py_lower_def dropWhile_map rev_map py_isspace_comp_lower)

lemmas eval_parse =
  py_strip_def py_lower_def py_lower_char_def py_isspace_def char_of_eq_iff

text \<open>
  The string of a space followed by \<open>north\<close> is none of the eight spellings in any case,
  so a parser that accepts these only rejects it; \<^verbatim>\<open>parse_side\<close> returns North.
\<close>

theorem parse_side_accepts_padded:
  "parse_side '' north'' = Inr NORTH \<and> spec_parse_side '' north'' = Inl ValueError"
  by (simp add: parse_side_def spec_parse_side_def eval_parse)

text \<open>
  Claim C9, amended. \<^verbatim>\<open>parse_side\<close> removes the white space at both ends of its
  argument; on what is left it accepts exactly the eight spellings in any case, returning
  the side they name, and fails with \<^verbatim>\<open>ValueError\<close> on everything else.
\<close>

theorem parse_side_strip_then_spec: "parse_side s = spec_parse_side (py_strip s)"
  by (simp add: parse_side_def spec_parse_side_def py_strip_lower)

theorem parse_side_strip_then_spec_witness:
  "parse_side ''North'' = Inr NORTH \<and> parse_side ''W  '' = Inr WEST \<and>
   parse_side ''invalid'' = Inl ValueError \<and> parse_side ''nor th'' = Inl ValueError"
  using parse_side_strip_then_spec [of "''North''"] parse_side_strip_then_spec [of "''W  ''"]
    parse_side_strip_then_spec [of "''invalid''"] parse_side_strip_then_spec [of "''nor th''"]
  by (simp add: spec_parse_side_def eval_parse)

end
